theory Spec2Isabelle
  imports Complex_Main
begin

section \<open>JavaScript primitives used by server.js\<close>

text \<open>
  Strings are byte strings. \<open>String.prototype.toLowerCase\<close> is modelled on the ASCII
  letters; no character outside ASCII lower-cases to a letter occurring in a key that
  \<open>getContentType\<close> can find, so table lookups are unaffected.
\<close>

definition toLowerCase_char :: "char \<Rightarrow> char" where
  "toLowerCase_char c =
     (let n = (of_char c :: nat) in if 65 \<le> n \<and> n \<le> 90 then char_of (n + 32) else c)"

definition toLowerCase :: "string \<Rightarrow> string" where
  "toLowerCase s = map toLowerCase_char s"

text \<open>
  The value of a property read \<open>obj[key]\<close> on an object literal: a string of the literal,
  \<open>undefined\<close>, or a member inherited from \<open>Object.prototype\<close> (kept with the text that
  \<open>String(v)\<close> gives for it, which is what a header value is written as).
\<close>

datatype js_value = Undefined | Str string | Inherited string

fun truthy :: "js_value \<Rightarrow> bool" where
  "truthy Undefined = False"
| "truthy (Str s) = (s \<noteq> [])"
| "truthy (Inherited s) = True"

fun toString_value :: "js_value \<Rightarrow> string" where
  "toString_value Undefined = ''undefined''"
| "toString_value (Str s) = s"
| "toString_value (Inherited s) = s"

text \<open>
  Property lookup on an object literal with the given own properties. A key that is not
  an own property is looked up on \<open>Object.prototype\<close>; the members listed are the ones
  whose names are unchanged by \<open>toLowerCase\<close>, the only ones the source can ask for.
\<close>

definition object_get :: "(string \<times> string) list \<Rightarrow> string \<Rightarrow> js_value" where
  "object_get props k =
     (case map_of props k of
        Some v \<Rightarrow> Str v
      | None \<Rightarrow>
          if k = ''constructor'' then Inherited ''function Object() { [native code] }''
          else if k = ''__proto__'' then Inherited ''[object Object]''
          else Undefined)"

section \<open>path.join\<close>

fun split_on :: "char \<Rightarrow> string \<Rightarrow> string list" where
  "split_on c [] = [[]]"
| "split_on c (x # xs) =
     (if x = c then [] # split_on c xs
      else (case split_on c xs of [] \<Rightarrow> [[x]] | s # ss \<Rightarrow> (x # s) # ss))"

fun join_with :: "string \<Rightarrow> string list \<Rightarrow> string" where
  "join_with sep [] = []"
| "join_with sep [s] = s"
| "join_with sep (s # t # ss) = s @ sep @ join_with sep (t # ss)"

text \<open>
  \<open>normalizeString\<close> of Node's posix path module: the segments are pushed on a stack
  (kept reversed here); empty segments and \<open>.\<close> are skipped, \<open>..\<close> pops a segment, and
  at the top it is dropped for an absolute path and kept for a relative one.
\<close>

fun normalizeString :: "bool \<Rightarrow> string list \<Rightarrow> string list \<Rightarrow> string list" where
  "normalizeString absolute stack [] = rev stack"
| "normalizeString absolute stack (s # ss) =
     (if s = [] \<or> s = ''.'' then normalizeString absolute stack ss
      else if s = ''..'' then
        (case stack of
           [] \<Rightarrow> normalizeString absolute (if absolute then [] else [''..'']) ss
         | t # ts \<Rightarrow>
             if t = ''..'' then normalizeString absolute (s # stack) ss
             else normalizeString absolute ts ss)
      else normalizeString absolute (s # stack) ss)"

definition normalize :: "string \<Rightarrow> string" where
  "normalize p =
     (if p = [] then ''.''
      else
        let absolute = (hd p = CHR ''/'');
            trailing = (last p = CHR ''/'');
            q = join_with ''/'' (normalizeString absolute [] (split_on CHR ''/'' p));
            q1 = (if q = [] \<and> \<not> absolute then ''.'' else q);
            q2 = (if q1 \<noteq> [] \<and> trailing then q1 @ ''/'' else q1)
        in if absolute then CHR ''/'' # q2 else q2)"

definition path_join :: "string list \<Rightarrow> string" where
  "path_join parts =
     (let used = filter (\<lambda>s. s \<noteq> []) parts
      in if used = [] then ''.'' else normalize (join_with ''/'' used))"

section \<open>The filesystem and the transport\<close>

text \<open>
  A node of the filesystem is a regular file with its bytes or a directory with the
  names of its entries. \<open>nodes\<close> tells what a path resolves to; the paths asked for are
  the normalised strings that \<open>path.join\<close> produces. \<open>unreadable\<close> holds the paths whose
  content the process may not open (\<open>EACCES\<close>). A name listed in a directory need not
  resolve (a dangling symbolic link).
\<close>

datatype node = File string | Dir "string list"

record filesystem =
  nodes :: "string \<rightharpoonup> node"
  unreadable :: "string \<Rightarrow> bool"

text \<open>\<open>fs.access(p, F_OK)\<close>: succeeds when the path resolves to any node.\<close>

definition access_F_OK :: "filesystem \<Rightarrow> string \<Rightarrow> bool" where
  "access_F_OK fs p = (nodes fs p \<noteq> None)"

text \<open>\<open>fs.statSync(p).isDirectory()\<close>: \<open>None\<close> when \<open>statSync\<close> throws.\<close>

definition statSync_isDirectory :: "filesystem \<Rightarrow> string \<Rightarrow> bool option" where
  "statSync_isDirectory fs p =
     (case nodes fs p of
        None \<Rightarrow> None
      | Some (File bs) \<Rightarrow> Some False
      | Some (Dir names) \<Rightarrow> Some True)"

text \<open>\<open>fs.readdirSync(p)\<close>: \<open>None\<close> when it throws (missing, not a directory, no permission).\<close>

definition readdirSync :: "filesystem \<Rightarrow> string \<Rightarrow> string list option" where
  "readdirSync fs p =
     (case nodes fs p of
        Some (Dir names) \<Rightarrow> if unreadable fs p then None else Some names
      | _ \<Rightarrow> None)"

text \<open>
  \<open>res.sendFile(p, callback)\<close> of Express 4 for an absolute path and default options:
  the bytes that are transmitted, or \<open>None\<close> when the callback receives an error. The
  transport refuses a dot-file (with no \<open>dotfiles\<close> option, a path whose last segment
  starts with a dot), a directory, and a file it cannot open.
\<close>

definition containsDotFile :: "string list \<Rightarrow> bool" where
  "containsDotFile parts = list_ex (\<lambda>s. length s > 1 \<and> hd s = CHR ''.'') parts"

definition dotfileIgnored :: "string list \<Rightarrow> bool" where
  "dotfileIgnored parts =
     (containsDotFile parts \<and> parts \<noteq> [] \<and> last parts \<noteq> [] \<and> hd (last parts) = CHR ''.'')"

definition sendFile :: "filesystem \<Rightarrow> string \<Rightarrow> string option" where
  "sendFile fs p =
     (if dotfileIgnored (split_on CHR ''/'' p) then None
      else case nodes fs p of
        Some (File bs) \<Rightarrow> if unreadable fs p then None else Some bs
      | _ \<Rightarrow> None)"

section \<open>Responses\<close>

datatype json =
  JNull | JStr string | JNum int | JReal real | JArr "json list" | JObj "(string \<times> json) list"

text \<open>
  A body is absent, the bytes of a file, a value sent with \<open>res.json\<close>, or the page that
  the static middleware sends with a redirect.
\<close>

datatype body = NoBody | Raw string | Json json | RedirectPage

text \<open>
  \<open>headers\<close> holds the headers that the source sets itself with \<open>res.setHeader\<close>, latest
  first; those that the framework adds on its own are not listed.
\<close>

record response =
  status :: nat
  headers :: "(string \<times> string) list"
  body :: body

definition setHeader :: "string \<Rightarrow> string \<Rightarrow> (string \<times> string) list \<Rightarrow> (string \<times> string) list" where
  "setHeader name v hs = (name, v) # filter (\<lambda>h. toLowerCase (fst h) \<noteq> toLowerCase name) hs"

definition getHeader :: "(string \<times> string) list \<Rightarrow> string \<Rightarrow> string option" where
  "getHeader hs name = map_of (map (\<lambda>h. (toLowerCase (fst h), snd h)) hs) (toLowerCase name)"

section \<open>The tile route\<close>

definition types :: "(string \<times> string) list" where
  "types =
     [(''png'', ''image/png''),
      (''jpg'', ''image/jpeg''),
      (''jpeg'', ''image/jpeg''),
      (''webp'', ''image/webp''),
      (''pbf'', ''application/x-protobuf'')]"

definition getContentType :: "string \<Rightarrow> js_value" where
  "getContentType format = object_get types (toLowerCase format)"

record params =
  z :: string
  x :: string
  y :: string
  format :: string

definition tilePath :: "string \<Rightarrow> params \<Rightarrow> string" where
  "tilePath dirname ps = path_join [dirname, ''tiles'', z ps, x ps, y ps @ ''.'' @ format ps]"

definition tileHandler :: "string \<Rightarrow> filesystem \<Rightarrow> params \<Rightarrow> response" where
  "tileHandler dirname fs ps =
     (let p = tilePath dirname ps in
      if \<not> access_F_OK fs p then
        \<lparr>status = 404, headers = [],
         body = Json (JObj [(''error'', JStr ''Tile not found''),
                            (''path'', JStr (z ps @ ''/'' @ x ps @ ''/'' @ y ps @ ''.'' @ format ps))])\<rparr>
      else
        let contentType = getContentType (format ps);
            h1 = (if truthy contentType
                  then setHeader ''Content-Type'' (toString_value contentType) []
                  else []);
            h2 = setHeader ''Cache-Control'' ''public, max-age=3600'' h1
        in case sendFile fs p of
             Some bs \<Rightarrow> \<lparr>status = 200, headers = h2, body = Raw bs\<rparr>
           | None \<Rightarrow>
               \<lparr>status = 500, headers = h2,
                body = Json (JObj [(''error'', JStr ''Error serving tile'')])\<rparr>)"

section \<open>Numbers: parseInt and Number.prototype.toString\<close>

text \<open>
  Strings hold the UTF-8 encoding of the JavaScript string. The numbers that the source
  handles are the results of \<open>parseInt\<close>: doubles with an integer value, and the two
  infinities. \<open>NaN\<close> is \<open>None\<close> in the result of \<open>parseInt\<close>. The order on numbers is the
  one that the comparator \<open>(a, b) => a - b\<close> gives.
\<close>

datatype number = NegInfinity | Finite int | PosInfinity

fun number_le :: "number \<Rightarrow> number \<Rightarrow> bool" where
  "number_le NegInfinity b = True"
| "number_le (Finite i) NegInfinity = False"
| "number_le (Finite i) (Finite j) = (i \<le> j)"
| "number_le (Finite i) PosInfinity = True"
| "number_le PosInfinity NegInfinity = False"
| "number_le PosInfinity (Finite j) = False"
| "number_le PosInfinity PosInfinity = True"

instantiation number :: linorder
begin

definition less_eq_number :: "number \<Rightarrow> number \<Rightarrow> bool" where
  "less_eq_number a b = number_le a b"

definition less_number :: "number \<Rightarrow> number \<Rightarrow> bool" where
  "less_number a b = (number_le a b \<and> \<not> number_le b a)"

instance
proof
  fix a b c :: number
  show "(a < b) = (a \<le> b \<and> \<not> b \<le> a)"
    by (simp add: less_eq_number_def less_number_def)
  show "a \<le> a"
    by (cases a) (simp_all add: less_eq_number_def)
  show "a \<le> b \<Longrightarrow> b \<le> c \<Longrightarrow> a \<le> c"
    by (cases a; cases b; cases c) (simp_all add: less_eq_number_def)
  show "a \<le> b \<Longrightarrow> b \<le> a \<Longrightarrow> a = b"
    by (cases a; cases b) (simp_all add: less_eq_number_def)
  show "a \<le> b \<or> b \<le> a"
    by (cases a; cases b) (auto simp: less_eq_number_def)
qed

end

text \<open>
  The double nearest to a natural number, ties to the even significand; \<open>None\<close> when the
  number rounds beyond the largest double, where the result is an infinity.
\<close>

function bitLength :: "nat \<Rightarrow> nat" where
  "bitLength n = (if n = 0 then 0 else 1 + bitLength (n div 2))"
  by pat_completeness auto
termination
  by (relation "measure id") auto

definition roundToDouble :: "nat \<Rightarrow> nat option" where
  "roundToDouble n =
     (let l = bitLength n in
      if l \<le> 53 then Some n
      else
        let e = l - 53;
            q = n div 2 ^ e;
            r = n mod 2 ^ e;
            h = 2 ^ (e - 1);
            q1 = (if h < r \<or> (r = h \<and> odd q) then q + 1 else q);
            v = q1 * 2 ^ e
        in if 2 ^ 1024 \<le> v then None else Some v)"

text \<open>
  The white space that \<open>parseInt\<close> skips: the code points of \<open>WhiteSpace\<close> and
  \<open>LineTerminator\<close>, here in UTF-8 (TAB, LF, VT, FF, CR, SP, U+00A0, U+1680,
  U+2000 to U+200A, U+2028, U+2029, U+202F, U+205F, U+3000, U+FEFF).
\<close>

definition whiteSpaces :: "string list" where
  "whiteSpaces =
     [[CHR 0x09], [CHR 0x0A], [CHR 0x0B], [CHR 0x0C], [CHR 0x0D], [CHR 0x20],
      [CHR 0xC2, CHR 0xA0],
      [CHR 0xE1, CHR 0x9A, CHR 0x80],
      [CHR 0xE2, CHR 0x80, CHR 0x80], [CHR 0xE2, CHR 0x80, CHR 0x81],
      [CHR 0xE2, CHR 0x80, CHR 0x82], [CHR 0xE2, CHR 0x80, CHR 0x83],
      [CHR 0xE2, CHR 0x80, CHR 0x84], [CHR 0xE2, CHR 0x80, CHR 0x85],
      [CHR 0xE2, CHR 0x80, CHR 0x86], [CHR 0xE2, CHR 0x80, CHR 0x87],
      [CHR 0xE2, CHR 0x80, CHR 0x88], [CHR 0xE2, CHR 0x80, CHR 0x89],
      [CHR 0xE2, CHR 0x80, CHR 0x8A],
      [CHR 0xE2, CHR 0x80, CHR 0xA8], [CHR 0xE2, CHR 0x80, CHR 0xA9],
      [CHR 0xE2, CHR 0x80, CHR 0xAF],
      [CHR 0xE2, CHR 0x81, CHR 0x9F],
      [CHR 0xE3, CHR 0x80, CHR 0x80],
      [CHR 0xEF, CHR 0xBB, CHR 0xBF]]"

definition whiteSpaceLength :: "string \<Rightarrow> nat" where
  "whiteSpaceLength s =
     (case find (\<lambda>w. take (length w) s = w) whiteSpaces of
        None \<Rightarrow> 0
      | Some w \<Rightarrow> length w)"

function trimStart :: "string \<Rightarrow> string" where
  "trimStart s =
     (if whiteSpaceLength s = 0 \<or> s = [] then s else trimStart (drop (whiteSpaceLength s) s))"
  by pat_completeness auto
termination
  by (relation "measure length") auto

definition digitValue :: "nat \<Rightarrow> char \<Rightarrow> nat option" where
  "digitValue radix c =
     (let n = (of_char c :: nat);
          v = (if 48 \<le> n \<and> n \<le> 57 then Some (n - 48)
               else if 97 \<le> n \<and> n \<le> 122 then Some (n - 87)
               else if 65 \<le> n \<and> n \<le> 90 then Some (n - 55)
               else None)
      in case v of None \<Rightarrow> None | Some d \<Rightarrow> if d < radix then Some d else None)"

fun digitsValue :: "nat \<Rightarrow> nat \<Rightarrow> string \<Rightarrow> nat" where
  "digitsValue radix acc [] = acc"
| "digitsValue radix acc (c # cs) =
     (case digitValue radix c of
        None \<Rightarrow> acc
      | Some d \<Rightarrow> digitsValue radix (acc * radix + d) cs)"

text \<open>
  \<open>parseInt\<close> with no radix: leading white space is skipped, a sign is taken, a prefix
  \<open>0x\<close> or \<open>0X\<close> makes the radix 16, and the longest prefix of digits is read; what follows
  the digits is ignored. With no digit the result is \<open>NaN\<close>. The value is the double
  nearest to the integer read.
\<close>

definition parseInt :: "string \<Rightarrow> number option" where
  "parseInt s =
     (let s1 = trimStart s;
          negative = (s1 \<noteq> [] \<and> hd s1 = CHR ''-'');
          s2 = (if s1 \<noteq> [] \<and> (hd s1 = CHR ''-'' \<or> hd s1 = CHR ''+'') then tl s1 else s1);
          hex = (length s2 \<ge> 2 \<and> hd s2 = CHR ''0'' \<and> (s2 ! 1 = CHR ''x'' \<or> s2 ! 1 = CHR ''X''));
          radix = (if hex then 16 else 10);
          s3 = (if hex then drop 2 s2 else s2);
          ds = takeWhile (\<lambda>c. digitValue radix c \<noteq> None) s3
      in if ds = [] then None
         else case roundToDouble (digitsValue radix 0 ds) of
                None \<Rightarrow> Some (if negative then NegInfinity else PosInfinity)
              | Some v \<Rightarrow> Some (Finite (if negative then - int v else int v)))"

function toString_nat :: "nat \<Rightarrow> string" where
  "toString_nat n =
     (if n < 10 then [char_of (48 + n)]
      else toString_nat (n div 10) @ [char_of (48 + n mod 10)])"
  by pat_completeness auto
termination
  by (relation "measure id") auto

text \<open>
  \<open>Number.prototype.toString\<close> on a double \<open>v\<close> with an integer value: the decimal of
  fewest significant digits that rounds to \<open>v\<close> (the closest one, and the even one on a
  tie), written in full up to 21 digits and with an exponent beyond.
  \<open>shortestDecimal v d k\<close> looks for it among the numbers of \<open>k\<close> significant digits and
  more, \<open>d\<close> being the number of digits of \<open>v\<close>.
\<close>

function numDigits :: "nat \<Rightarrow> nat" where
  "numDigits n = (if n < 10 then 1 else 1 + numDigits (n div 10))"
  by pat_completeness auto
termination
  by (relation "measure id") auto

function shortestDecimal :: "nat \<Rightarrow> nat \<Rightarrow> nat \<Rightarrow> nat" where
  "shortestDecimal v d k =
     (if d \<le> k then v
      else
        let p = 10 ^ (d - k);
            lo = (v div p) * p;
            hi = lo + p;
            okLo = (roundToDouble lo = Some v);
            okHi = (roundToDouble hi = Some v)
        in if okLo \<and> okHi then
             (if v - lo < hi - v then lo
              else if hi - v < v - lo then hi
              else if even (v div p) then lo else hi)
           else if okLo then lo
           else if okHi then hi
           else shortestDecimal v d (k + 1))"
  by pat_completeness auto
termination
  by (relation "measure (\<lambda>(v, d, k). d - k)") auto

definition stripTrailingZeros :: "string \<Rightarrow> string" where
  "stripTrailingZeros s = rev (dropWhile (\<lambda>c. c = CHR ''0'') (rev s))"

definition formatDecimal :: "nat \<Rightarrow> string" where
  "formatDecimal c =
     (let ds = toString_nat c; n = length ds in
      if n \<le> 21 then ds
      else
        let s = stripTrailingZeros ds in
        (if length s = 1 then s else hd s # CHR ''.'' # tl s) @ ''e+'' @ toString_nat (n - 1))"

definition toString_number :: "number \<Rightarrow> string" where
  "toString_number num =
     (case num of
        NegInfinity \<Rightarrow> ''-Infinity''
      | PosInfinity \<Rightarrow> ''Infinity''
      | Finite i \<Rightarrow>
          if i < 0 then CHR ''-'' # formatDecimal (shortestDecimal (nat (- i)) (numDigits (nat (- i))) 1)
          else formatDecimal (shortestDecimal (nat i) (numDigits (nat i)) 1))"

text \<open>The recursive equations are unfolded on demand only.\<close>

declare bitLength.simps [simp del]
declare trimStart.simps [simp del]
declare toString_nat.simps [simp del]
declare numDigits.simps [simp del]
declare shortestDecimal.simps [simp del]

section \<open>Zoom levels and the tiles-info object\<close>

text \<open>
  \<open>items.filter(item => fs.statSync(path.join(dir, item)).isDirectory())\<close>: the items
  that are directories, or \<open>None\<close> when \<open>statSync\<close> throws on one of them.
\<close>

fun filterDirectories :: "filesystem \<Rightarrow> string \<Rightarrow> string list \<Rightarrow> string list option" where
  "filterDirectories fs dir [] = Some []"
| "filterDirectories fs dir (item # items) =
     (case statSync_isDirectory fs (path_join [dir, item]) of
        None \<Rightarrow> None
      | Some isDir \<Rightarrow>
          (case filterDirectories fs dir items of
             None \<Rightarrow> None
           | Some rest \<Rightarrow> Some (if isDir then item # rest else rest)))"

text \<open>The directories listed in \<open>dir\<close>; \<open>None\<close> when \<open>readdirSync\<close> or \<open>statSync\<close> throws.\<close>

definition listDirectories :: "filesystem \<Rightarrow> string \<Rightarrow> string list option" where
  "listDirectories fs dir =
     (case readdirSync fs dir of
        None \<Rightarrow> None
      | Some items \<Rightarrow> filterDirectories fs dir items)"

definition getAvailableZoomLevels :: "string \<Rightarrow> filesystem \<Rightarrow> number list" where
  "getAvailableZoomLevels dirname fs =
     (let tilesDir = path_join [dirname, ''tiles''] in
      case listDirectories fs tilesDir of
        None \<Rightarrow> []
      | Some dirs \<Rightarrow> sort (List.map_filter parseInt dirs))"

datatype level_info =
  LevelInfo (x_directories: nat) (sample_x_dirs: "string list")
| LevelError (error: string)

text \<open>
  The \<open>info\<close> object of the tiles-info route. \<open>structure\<close> is keyed by the level (the
  property key is the level's \<open>toString\<close>, which differs for different numbers), in the
  order of first assignment; an assignment to a key that is present replaces its value.
\<close>

record tiles_info =
  tiles_directory :: string
  available_levels :: "number list"
  "structure" :: "(number \<times> level_info) list"

fun assign ::
  "number \<Rightarrow> level_info \<Rightarrow> (number \<times> level_info) list \<Rightarrow> (number \<times> level_info) list" where
  "assign k v [] = [(k, v)]"
| "assign k v ((k', v') # kvs) = (if k' = k then (k, v) # kvs else (k', v') # assign k v kvs)"

definition levelInfo :: "string \<Rightarrow> filesystem \<Rightarrow> number \<Rightarrow> level_info" where
  "levelInfo tilesDir fs level =
     (let levelDir = path_join [tilesDir, toString_number level] in
      case listDirectories fs levelDir of
        Some xDirs \<Rightarrow> LevelInfo (length xDirs) xDirs
      | None \<Rightarrow> LevelError ''Cannot read directory'')"

fun forEach_level ::
  "string \<Rightarrow> filesystem \<Rightarrow> number list \<Rightarrow> (number \<times> level_info) list \<Rightarrow>
     (number \<times> level_info) list" where
  "forEach_level tilesDir fs [] st = st"
| "forEach_level tilesDir fs (level # levels) st =
     forEach_level tilesDir fs levels (assign level (levelInfo tilesDir fs level) st)"

definition tilesInfo :: "string \<Rightarrow> filesystem \<Rightarrow> tiles_info" where
  "tilesInfo dirname fs =
     (let tilesDir = path_join [dirname, ''tiles''];
          levels = getAvailableZoomLevels dirname fs
      in \<lparr>tiles_directory = tilesDir,
          available_levels = levels,
          structure = forEach_level tilesDir fs levels []\<rparr>)"

section \<open>The process and the listening port\<close>

text \<open>
  What is fixed when the process starts: \<open>__dirname\<close>, the working directory and the
  \<open>PORT\<close> environment variable (\<open>None\<close> when unset). What a handler reads from the
  clock at the time of a request: \<open>new Date().toISOString()\<close> and \<open>process.uptime()\<close>.
\<close>

record process =
  dirname :: string
  cwd :: string
  env_PORT :: "string option"

record clock =
  now_ISO :: string
  uptime :: real

datatype port = PortNumber nat | PortString string

text \<open>\<open>process.env.PORT || 3000\<close>: an unset variable and the empty string are falsy.\<close>

definition PORT :: "string option \<Rightarrow> port" where
  "PORT env =
     (case env of
        None \<Rightarrow> PortNumber 3000
      | Some v \<Rightarrow> if v = [] then PortNumber 3000 else PortString v)"

fun toString_port :: "port \<Rightarrow> string" where
  "toString_port (PortNumber n) = toString_nat n"
| "toString_port (PortString v) = v"

section \<open>Requests and route matching\<close>

datatype http_method = GET | HEAD | POST | OPTIONS | OtherMethod string

text \<open>\<open>path\<close> is the path of the request URL as it was sent, escapes included.\<close>

record request =
  "method" :: http_method
  path :: string

text \<open>
  The pattern of the route \<open>/:z/:x/:y.:format\<close> as Express 4 compiles it:
  \<open>^\/([^\/]+?)\/([^\/]+?)\/([^\/]+?)\.([^\/\.]+?)\/?$\<close>. There are three non-empty
  segments, with one optional trailing slash; the last segment is cut at its last dot,
  and both sides of the dot are non-empty. The result holds the substrings as matched.
\<close>

definition matchTile :: "string \<Rightarrow> params option" where
  "matchTile p =
     (if p = [] \<or> hd p \<noteq> CHR ''/'' then None
      else
        let r = tl p;
            r1 = (if r \<noteq> [] \<and> last r = CHR ''/'' then butlast r else r)
        in case split_on CHR ''/'' r1 of
             [zs, xs, l] \<Rightarrow>
               let f = rev (takeWhile (\<lambda>c. c \<noteq> CHR ''.'') (rev l));
                   d = dropWhile (\<lambda>c. c \<noteq> CHR ''.'') (rev l)
               in if zs = [] \<or> xs = [] \<or> d = [] \<or> tl d = [] \<or> f = [] then None
                  else Some \<lparr>z = zs, x = xs, y = rev (tl d), format = f\<rparr>
           | _ \<Rightarrow> None)"

text \<open>
  \<open>decodeURIComponent\<close>: every escape \<open>%XX\<close> is replaced by its byte. It throws, which
  is \<open>None\<close> here, on a \<open>%\<close> that two hexadecimal digits do not follow and on escaped
  bytes from \<open>0x80\<close> up that are not the well-formed UTF-8 encoding of one code point,
  each byte of it escaped.
\<close>

datatype octet = Plain char | Escaped nat

fun unescape :: "string \<Rightarrow> octet list option" where
  "unescape [] = Some []"
| "unescape (c # cs) =
     (if c \<noteq> CHR ''%'' then map_option (\<lambda>r. Plain c # r) (unescape cs)
      else case cs of
        h1 # h2 # rest \<Rightarrow>
          (case (digitValue 16 h1, digitValue 16 h2) of
             (Some a, Some b) \<Rightarrow> map_option (\<lambda>r. Escaped (16 * a + b) # r) (unescape rest)
           | _ \<Rightarrow> None)
      | _ \<Rightarrow> None)"

definition continuation :: "nat \<Rightarrow> nat \<Rightarrow> octet \<Rightarrow> bool" where
  "continuation lo hi oct = (case oct of Escaped b \<Rightarrow> lo \<le> b \<and> b \<le> hi | Plain c \<Rightarrow> False)"

text \<open>
  The number of octets of the well-formed UTF-8 sequence (of two bytes or more) at the
  head of the list, all of them escaped; 0 when there is none.
\<close>

definition sequenceLength :: "nat \<Rightarrow> octet list \<Rightarrow> nat" where
  "sequenceLength b xs =
     (if 0xC2 \<le> b \<and> b \<le> 0xDF then
        (case xs of c1 # r \<Rightarrow> if continuation 0x80 0xBF c1 then 2 else 0 | _ \<Rightarrow> 0)
      else if 0xE0 \<le> b \<and> b \<le> 0xEF then
        (case xs of
           c1 # c2 # r \<Rightarrow>
             if continuation (if b = 0xE0 then 0xA0 else 0x80) (if b = 0xED then 0x9F else 0xBF) c1
                \<and> continuation 0x80 0xBF c2
             then 3 else 0
         | _ \<Rightarrow> 0)
      else if 0xF0 \<le> b \<and> b \<le> 0xF4 then
        (case xs of
           c1 # c2 # c3 # r \<Rightarrow>
             if continuation (if b = 0xF0 then 0x90 else 0x80) (if b = 0xF4 then 0x8F else 0xBF) c1
                \<and> continuation 0x80 0xBF c2 \<and> continuation 0x80 0xBF c3
             then 4 else 0
         | _ \<Rightarrow> 0)
      else 0)"

definition octetByte :: "octet \<Rightarrow> char" where
  "octetByte oct = (case oct of Plain c \<Rightarrow> c | Escaped b \<Rightarrow> char_of b)"

function decodeOctets :: "octet list \<Rightarrow> string option" where
  "decodeOctets [] = Some []"
| "decodeOctets (Plain c # xs) = map_option (\<lambda>r. c # r) (decodeOctets xs)"
| "decodeOctets (Escaped b # xs) =
     (if b < 0x80 then map_option (\<lambda>r. char_of b # r) (decodeOctets xs)
      else
        let n = sequenceLength b xs in
        if n = 0 then None
        else map_option (\<lambda>r. char_of b # map octetByte (take (n - 1) xs) @ r)
               (decodeOctets (drop (n - 1) xs)))"
  by pat_completeness auto
termination
  by (relation "measure length") auto

definition decodeURIComponent :: "string \<Rightarrow> string option" where
  "decodeURIComponent s = (case unescape s of None \<Rightarrow> None | Some xs \<Rightarrow> decodeOctets xs)"

text \<open>
  The outcome of matching the tile route: no match, a match whose parameter cannot be
  decoded (the parameter as matched is kept: Express puts it in the error message), or
  the decoded parameters. Express decodes the parameters in the order of the pattern.
\<close>

datatype route_match = NoMatch | DecodeFailed string | Matched params

definition tileRoute :: "string \<Rightarrow> route_match" where
  "tileRoute p =
     (case matchTile p of
        None \<Rightarrow> NoMatch
      | Some raw \<Rightarrow>
          (case decodeURIComponent (z raw) of
             None \<Rightarrow> DecodeFailed (z raw)
           | Some zs \<Rightarrow>
               (case decodeURIComponent (x raw) of
                  None \<Rightarrow> DecodeFailed (x raw)
                | Some xs \<Rightarrow>
                    (case decodeURIComponent (y raw) of
                       None \<Rightarrow> DecodeFailed (y raw)
                     | Some ys \<Rightarrow>
                         (case decodeURIComponent (format raw) of
                            None \<Rightarrow> DecodeFailed (format raw)
                          | Some f \<Rightarrow> Matched \<lparr>z = zs, x = xs, y = ys, format = f\<rparr>)))))"

text \<open>
  A route with a literal path such as \<open>/health\<close>: Express matches it without regard to
  letter case and with an optional trailing slash.
\<close>

definition matchLiteral :: "string \<Rightarrow> string \<Rightarrow> bool" where
  "matchLiteral route p =
     (let q = toLowerCase p in
      if route = ''/'' then q = ''/'' \<or> q = []
      else q = route \<or> q = route @ ''/'')"

section \<open>The static middleware\<close>

text \<open>
  What a middleware does with a request: it answers, passes the request on, or passes
  an error on.
\<close>

datatype middleware_result = Answered response | Next | NextError string

text \<open>
  \<open>express.static('public')\<close> with its default options, over the directory \<open>public\<close> of
  the working directory. It looks at \<open>GET\<close> and \<open>HEAD\<close> requests only and decodes the
  path. A path that cannot be decoded, one with a NUL, one that climbs out of the root,
  one that names a dot-file and one that names nothing are passed on; a regular file is
  sent, and for \<open>HEAD\<close> it is not opened and no body is sent; a file that cannot be
  opened passes the system's error on; a path with a trailing slash is tried with
  \<open>index.html\<close>; a directory named without a trailing slash is redirected.
\<close>

definition serveStatic :: "string \<Rightarrow> filesystem \<Rightarrow> request \<Rightarrow> middleware_result" where
  "serveStatic rootDir fs req =
     (if method req \<noteq> GET \<and> method req \<noteq> HEAD then Next
      else
        (case decodeURIComponent (path req) of
           None \<Rightarrow> Next
         | Some p \<Rightarrow>
             (let rel = normalize (''./'' @ p);
                  parts = split_on CHR ''/'' rel;
                  full = path_join [rootDir, rel];
                  trailing = (path req \<noteq> [] \<and> last (path req) = CHR ''/'');
                  target = (if trailing then path_join [full, ''index.html''] else full)
              in if CHR 0x00 \<in> set p then Next
                 else if list_ex (\<lambda>s. s = ''..'') parts then Next
                 else if dotfileIgnored parts then Next
                 else
                   (case nodes fs target of
                      None \<Rightarrow> Next
                    | Some (File bs) \<Rightarrow>
                        (if method req = HEAD
                         then Answered \<lparr>status = 200, headers = [], body = NoBody\<rparr>
                         else if unreadable fs target
                         then NextError
                                (''EACCES: permission denied, open '' @ [CHR 0x27] @ target @ [CHR 0x27])
                         else Answered \<lparr>status = 200, headers = [], body = Raw bs\<rparr>)
                    | Some (Dir names) \<Rightarrow>
                        (if trailing then Next
                         else Answered
                                \<lparr>status = 301, headers = [],
                                 body = (if method req = HEAD then NoBody else RedirectPage)\<rparr>)))))"

section \<open>The other routes and the application\<close>

text \<open>\<open>JSON.stringify\<close> writes an infinity as \<open>null\<close>.\<close>

definition json_of_number :: "number \<Rightarrow> json" where
  "json_of_number num = (case num of Finite i \<Rightarrow> JNum i | _ \<Rightarrow> JNull)"

definition rootHandler :: "process \<Rightarrow> filesystem \<Rightarrow> response" where
  "rootHandler pr fs =
     (let port = toString_port (PORT (env_PORT pr)) in
      \<lparr>status = 200, headers = [],
       body = Json (JObj
         [(''name'', JStr ''Local Tile Server''),
          (''version'', JStr ''1.0.0''),
          (''description'', JStr ''Serving tiles from tiles/18 directory''),
          (''usage'', JObj
             [(''tile_url'', JStr (''http://localhost:'' @ port @ ''/{z}/{x}/{y}.{format}'')),
              (''example'', JStr (''http://localhost:'' @ port @ ''/18/131072/131072.png'')),
              (''supported_formats'', JArr [JStr ''png'', JStr ''jpg'', JStr ''jpeg'', JStr ''webp''])]),
          (''available_zoom_levels'',
             JArr (map json_of_number (getAvailableZoomLevels (dirname pr) fs)))])\<rparr>)"

definition healthHandler :: "clock \<Rightarrow> response" where
  "healthHandler clk =
     \<lparr>status = 200, headers = [],
      body = Json (JObj
        [(''status'', JStr ''healthy''),
         (''timestamp'', JStr (now_ISO clk)),
         (''uptime'', JReal (uptime clk))])\<rparr>"

fun json_of_level :: "level_info \<Rightarrow> json" where
  "json_of_level (LevelInfo n names) =
     JObj [(''x_directories'', JNum (int n)), (''sample_x_dirs'', JArr (map JStr names))]"
| "json_of_level (LevelError msg) = JObj [(''error'', JStr msg)]"

text \<open>
  The order in which an object lists its keys: the keys that are array indices (the
  integers from 0 to \<open>2 ^ 32 - 2\<close>) in ascending order, then the others in the order of
  their creation.
\<close>

definition isArrayIndex :: "number \<Rightarrow> bool" where
  "isArrayIndex k = (case k of Finite i \<Rightarrow> 0 \<le> i \<and> i < 2 ^ 32 - 1 | _ \<Rightarrow> False)"

definition ownPropertyOrder :: "(number \<times> level_info) list \<Rightarrow> (number \<times> level_info) list" where
  "ownPropertyOrder kvs =
     sort_key fst (filter (\<lambda>kv. isArrayIndex (fst kv)) kvs)
     @ filter (\<lambda>kv. \<not> isArrayIndex (fst kv)) kvs"

definition json_of_info :: "tiles_info \<Rightarrow> json" where
  "json_of_info info =
     JObj
       [(''tiles_directory'', JStr (tiles_directory info)),
        (''available_levels'', JArr (map json_of_number (available_levels info))),
        (''structure'',
           JObj (map (\<lambda>kv. (toString_number (fst kv), json_of_level (snd kv)))
                   (ownPropertyOrder (structure info))))]"

definition tilesInfoHandler :: "process \<Rightarrow> filesystem \<Rightarrow> response" where
  "tilesInfoHandler pr fs =
     \<lparr>status = 200, headers = [], body = Json (json_of_info (tilesInfo (dirname pr) fs))\<rparr>"

definition errorHandler :: "string \<Rightarrow> response" where
  "errorHandler message =
     \<lparr>status = 500, headers = [],
      body = Json (JObj [(''error'', JStr ''Internal server error''), (''message'', JStr message)])\<rparr>"

definition notFoundHandler :: "request \<Rightarrow> response" where
  "notFoundHandler req =
     \<lparr>status = 404, headers = [],
      body = Json (JObj [(''error'', JStr ''Not found''),
                         (''message'', JStr (''Path '' @ path req @ '' not found''))])\<rparr>"

text \<open>
  The tile handler on a \<open>HEAD\<close> request: the transport checks the file as for \<open>GET\<close> but
  does not open it, so whether it can be read plays no part; the body is dropped by
  \<open>forMethod\<close> below, as for every response to \<open>HEAD\<close>.
\<close>

definition tileHandlerHEAD :: "string \<Rightarrow> filesystem \<Rightarrow> params \<Rightarrow> response" where
  "tileHandlerHEAD d fs ps = tileHandler d (fs\<lparr>unreadable := (\<lambda>p. False)\<rparr>) ps"

definition forMethod :: "http_method \<Rightarrow> response \<Rightarrow> response" where
  "forMethod m res = (if m = HEAD then res\<lparr>body := NoBody\<rparr> else res)"

text \<open>
  The routes in the order of registration, \<open>tileH\<close> being the tile handler. Express
  matches the path of a route, and decodes its parameters, before it looks at the
  method: a parameter of the tile route that cannot be decoded goes to the error handler
  with Express's message, whatever the method; a request of another method than \<open>GET\<close>
  and \<open>HEAD\<close> finds no route.
\<close>

definition routes ::
  "(string \<Rightarrow> filesystem \<Rightarrow> params \<Rightarrow> response) \<Rightarrow> process \<Rightarrow> clock \<Rightarrow> filesystem \<Rightarrow> request \<Rightarrow> response" where
  "routes tileH pr clk fs req =
     (case tileRoute (path req) of
        DecodeFailed v \<Rightarrow> errorHandler (''Failed to decode param '' @ [CHR 0x27] @ v @ [CHR 0x27])
      | Matched ps \<Rightarrow>
          (if method req = GET \<or> method req = HEAD then tileH (dirname pr) fs ps
           else notFoundHandler req)
      | NoMatch \<Rightarrow>
          (if method req \<noteq> GET \<and> method req \<noteq> HEAD then notFoundHandler req
           else if matchLiteral ''/'' (path req) then rootHandler pr fs
           else if matchLiteral ''/health'' (path req) then healthHandler clk
           else if matchLiteral ''/tiles-info'' (path req) then tilesInfoHandler pr fs
           else notFoundHandler req))"

text \<open>
  The middleware stack in the order of registration: \<open>cors()\<close>, which answers an
  \<open>OPTIONS\<close> request itself; the static middleware, given as \<open>static\<close>; the routes, which
  serve \<open>GET\<close> and \<open>HEAD\<close>; the error handler; the 404 handler. On \<open>HEAD\<close> the tile
  handler's transport does not open the file, and no response has a body.
\<close>

definition app ::
  "(filesystem \<Rightarrow> request \<Rightarrow> middleware_result) \<Rightarrow> process \<Rightarrow> clock \<Rightarrow> filesystem \<Rightarrow> request \<Rightarrow> response" where
  "app static pr clk fs req =
     (if method req = OPTIONS then \<lparr>status = 204, headers = [], body = NoBody\<rparr>
      else
        (case static fs req of
           Answered res \<Rightarrow> res
         | NextError message \<Rightarrow> forMethod (method req) (errorHandler message)
         | Next \<Rightarrow>
             forMethod (method req)
               (routes (if method req = HEAD then tileHandlerHEAD else tileHandler) pr clk fs req)))"

text \<open>The application of server.js: the stack with \<open>express.static('public')\<close>.\<close>

definition server :: "process \<Rightarrow> clock \<Rightarrow> filesystem \<Rightarrow> request \<Rightarrow> response" where
  "server pr clk fs req = app (serveStatic (path_join [cwd pr, ''public''])) pr clk fs req"



section \<open>An example deployment\<close>

text \<open>
  A tiles root with the zoom levels 17, 18 and 20 beside a directory \<open>abc\<close> and a
  regular file; level 20 may not be listed; one tile may not be opened; the public
  directory holds a file under a tile path.
\<close>

definition example_fs :: filesystem where
  "example_fs =
     \<lparr>nodes =
        [''/srv/tiles'' \<mapsto> Dir [''20'', ''17'', ''abc'', ''18'', ''readme.txt''],
         ''/srv/tiles/readme.txt'' \<mapsto> File ''tiles'',
         ''/srv/tiles/abc'' \<mapsto> Dir [],
         ''/srv/tiles/20'' \<mapsto> Dir [''5''],
         ''/srv/tiles/20/5'' \<mapsto> Dir [],
         ''/srv/tiles/17'' \<mapsto> Dir [''1'', ''2'', ''notes.txt''],
         ''/srv/tiles/17/1'' \<mapsto> Dir [],
         ''/srv/tiles/17/2'' \<mapsto> Dir [],
         ''/srv/tiles/17/notes.txt'' \<mapsto> File ''n'',
         ''/srv/tiles/18'' \<mapsto> Dir [''131072''],
         ''/srv/tiles/18/131072'' \<mapsto>
            Dir [''131072.png'', ''131072.PNG'', ''5.xyz'', ''6.constructor'', ''7.png'', ''8.png'', ''9.xyz''],
         ''/srv/tiles/18/131072/131072.png'' \<mapsto> File ''PNG1'',
         ''/srv/tiles/18/131072/131072.PNG'' \<mapsto> File ''PNG2'',
         ''/srv/tiles/18/131072/5.xyz'' \<mapsto> File ''XYZ'',
         ''/srv/tiles/18/131072/6.constructor'' \<mapsto> File ''C'',
         ''/srv/tiles/18/131072/7.png'' \<mapsto> File ''TILE'',
         ''/srv/tiles/18/131072/8.png'' \<mapsto> File ''LOCKED'',
         ''/srv/tiles/18/131072/9.xyz'' \<mapsto> File ''LOCKED'',
         ''/srv/public'' \<mapsto> Dir [''18''],
         ''/srv/public/18'' \<mapsto> Dir [''131072''],
         ''/srv/public/18/131072'' \<mapsto> Dir [''7.png''],
         ''/srv/public/18/131072/7.png'' \<mapsto> File ''PUBLIC''],
      unreadable =
        (\<lambda>p. p = ''/srv/tiles/20'' \<or> p = ''/srv/tiles/18/131072/8.png''
               \<or> p = ''/srv/tiles/18/131072/9.xyz'')\<rparr>"

definition example_process :: process where
  "example_process = \<lparr>dirname = ''/srv'', cwd = ''/srv'', env_PORT = None\<rparr>"

definition example_clock :: clock where
  "example_clock = \<lparr>now_ISO = ''2024-01-01T00:00:00.000Z'', uptime = 1\<rparr>"


text \<open>The tiles root holds the level 17 and a link that points nowhere.\<close>

definition dangling_fs :: filesystem where
  "dangling_fs =
     \<lparr>nodes =
        [''/srv/tiles'' \<mapsto> Dir [''17'', ''latest''],
         ''/srv/tiles/17'' \<mapsto> Dir []],
      unreadable = (\<lambda>p. False)\<rparr>"

text \<open>The tiles root holds one level, in a directory named with leading zeros.\<close>

definition padded_fs :: filesystem where
  "padded_fs =
     \<lparr>nodes =
        [''/srv/tiles'' \<mapsto> Dir [''007''],
         ''/srv/tiles/007'' \<mapsto> Dir [''a''],
         ''/srv/tiles/007/a'' \<mapsto> Dir []],
      unreadable = (\<lambda>p. False)\<rparr>"

text \<open>The example deployment with a directory \<open>tiles-info\<close> in the public directory.\<close>

definition shadowed_fs :: filesystem where
  "shadowed_fs =
     example_fs\<lparr>nodes := (nodes example_fs)
       (''/srv/public'' \<mapsto> Dir [''18'', ''tiles-info''], ''/srv/public/tiles-info'' \<mapsto> Dir [])\<rparr>"

definition tile :: "string \<Rightarrow> string \<Rightarrow> string \<Rightarrow> string \<Rightarrow> params" where
  "tile zs xs ys f = \<lparr>z = zs, x = xs, y = ys, format = f\<rparr>"

section \<open>Helper facts\<close>

lemmas lower_simps = toLowerCase_def toLowerCase_char_def char_of_def bit_Suc_0_iff

lemmas path_simps = path_join_def normalize_def Let_def

lemmas tile_simps = tile_def tilePath_def path_simps

lemma toLowerCase_char_idem: "toLowerCase_char (toLowerCase_char c) = toLowerCase_char c"
  by (simp add: toLowerCase_char_def Let_def)

lemma toLowerCase_idem: "toLowerCase (toLowerCase s) = toLowerCase s"
  by (simp add: toLowerCase_def toLowerCase_char_idem)

lemma sendFile_SomeD: "sendFile fs p = Some bs \<Longrightarrow> nodes fs p = Some (File bs)"
  by (auto simp: sendFile_def split: if_splits option.splits node.splits)

lemma getContentType_table:
  "map_of types (toLowerCase f) = Some ct \<Longrightarrow> getContentType f = Str ct"
  by (simp add: getContentType_def object_get_def)

lemma types_nonempty: "map_of types k = Some ct \<Longrightarrow> ct \<noteq> []"
  by (auto simp: types_def split: if_splits)

lemma getContentType_unknown:
  "map_of types (toLowerCase f) = None \<Longrightarrow> toLowerCase f \<noteq> ''constructor'' \<Longrightarrow>
   toLowerCase f \<noteq> ''__proto__'' \<Longrightarrow> getContentType f = Undefined"
  by (simp add: getContentType_def object_get_def)

lemma getHeader_setHeader_same: "getHeader (setHeader n v hs) n = Some v"
  by (simp add: getHeader_def setHeader_def)

lemma getHeader_setHeader_other:
  "toLowerCase n \<noteq> toLowerCase m \<Longrightarrow> getHeader (setHeader m v hs) n = getHeader hs n"
  by (induction hs) (auto simp: getHeader_def setHeader_def)

lemma getHeader_Nil: "getHeader [] n = None"
  by (simp add: getHeader_def)

lemma content_type_not_cache_control:
  "toLowerCase ''Content-Type'' \<noteq> toLowerCase ''Cache-Control''"
  by (simp add: lower_simps)

lemmas header_simps =
  getHeader_setHeader_same getHeader_setHeader_other getHeader_Nil content_type_not_cache_control


lemma tileHandler_sent:
  "sendFile fs (tilePath d ps) = Some bs \<Longrightarrow>
   tileHandler d fs ps =
     \<lparr>status = 200,
      headers = setHeader ''Cache-Control'' ''public, max-age=3600''
        (if truthy (getContentType (format ps))
         then setHeader ''Content-Type'' (toString_value (getContentType (format ps))) []
         else []),
      body = Raw bs\<rparr>"
  by (frule sendFile_SomeD) (simp add: tileHandler_def Let_def access_F_OK_def)

lemma tileHandler_failed:
  "access_F_OK fs (tilePath d ps) \<Longrightarrow> sendFile fs (tilePath d ps) = None \<Longrightarrow>
   tileHandler d fs ps =
     \<lparr>status = 500,
      headers = setHeader ''Cache-Control'' ''public, max-age=3600''
        (if truthy (getContentType (format ps))
         then setHeader ''Content-Type'' (toString_value (getContentType (format ps))) []
         else []),
      body = Json (JObj [(''error'', JStr ''Error serving tile'')])\<rparr>"
  by (simp add: tileHandler_def Let_def)

section \<open>The tile route: found, missing, unknown format, letter case\<close>

text \<open>
  C1, as amended. For a tile request whose file \<open><tilesRoot>/<z>/<x>/<y>.<format>\<close> is a
  regular file and whose format, in lower case, is a key of the fixed table: when the
  transmission of the file succeeds, the tile handler responds with status 200, a body
  equal to the file's bytes, the Content-Type that the table gives and the header
  \<open>Cache-Control: public, max-age=3600\<close>; when the transmission fails, it responds with
  status 500 and the body \<open>{error: "Error serving tile"}\<close>.
\<close>

theorem tile_found:
  assumes "nodes fs (tilePath d ps) = Some (File bs)"
    and "map_of types (toLowerCase (format ps)) = Some ct"
  shows "(sendFile fs (tilePath d ps) = Some bs \<longrightarrow>
            status (tileHandler d fs ps) = 200 \<and>
            body (tileHandler d fs ps) = Raw bs \<and>
            getHeader (headers (tileHandler d fs ps)) ''Content-Type'' = Some ct \<and>
            getHeader (headers (tileHandler d fs ps)) ''Cache-Control'' = Some ''public, max-age=3600'')
       \<and> (sendFile fs (tilePath d ps) = None \<longrightarrow>
            status (tileHandler d fs ps) = 500 \<and>
            body (tileHandler d fs ps) = Json (JObj [(''error'', JStr ''Error serving tile'')]))"
proof -
  have acc: "access_F_OK fs (tilePath d ps)"
    using assms(1) by (simp add: access_F_OK_def)
  have ct: "getContentType (format ps) = Str ct" "ct \<noteq> []"
    using assms(2) by (simp_all add: getContentType_table types_nonempty)
  show ?thesis
    using acc ct by (simp add: tileHandler_sent tileHandler_failed header_simps)
qed

lemma example_png_node:
  "nodes example_fs (tilePath ''/srv'' (tile ''18'' ''131072'' ''131072'' ''png'')) = Some (File ''PNG1'')"
  by (simp add: tile_simps example_fs_def)

lemma example_png_sent:
  "sendFile example_fs (tilePath ''/srv'' (tile ''18'' ''131072'' ''131072'' ''png'')) = Some ''PNG1''"
  by (simp add: tile_simps example_fs_def sendFile_def dotfileIgnored_def containsDotFile_def)

lemma png_in_table: "map_of types (toLowerCase (format (tile zs xs ys ''png''))) = Some ''image/png''"
  by (simp add: tile_def types_def lower_simps)

lemma example_locked_node:
  "nodes example_fs (tilePath ''/srv'' (tile ''18'' ''131072'' ''8'' ''png'')) = Some (File ''LOCKED'')"
  by (simp add: tile_simps example_fs_def)

lemma example_locked_failed:
  "sendFile example_fs (tilePath ''/srv'' (tile ''18'' ''131072'' ''8'' ''png'')) = None"
  by (simp add: tile_simps example_fs_def sendFile_def dotfileIgnored_def containsDotFile_def)

theorem tile_found_witness:
  "(status (tileHandler ''/srv'' example_fs (tile ''18'' ''131072'' ''8'' ''png'')) = 500 \<and>
    body (tileHandler ''/srv'' example_fs (tile ''18'' ''131072'' ''8'' ''png'')) =
      Json (JObj [(''error'', JStr ''Error serving tile'')])) \<and>
   status (tileHandler ''/srv'' example_fs (tile ''18'' ''131072'' ''131072'' ''png'')) = 200 \<and>
   body (tileHandler ''/srv'' example_fs (tile ''18'' ''131072'' ''131072'' ''png'')) = Raw ''PNG1'' \<and>
   getHeader (headers (tileHandler ''/srv'' example_fs (tile ''18'' ''131072'' ''131072'' ''png'')))
     ''Content-Type'' = Some ''image/png'' \<and>
   getHeader (headers (tileHandler ''/srv'' example_fs (tile ''18'' ''131072'' ''131072'' ''png'')))
     ''Cache-Control'' = Some ''public, max-age=3600''"
  using tile_found [OF example_png_node png_in_table] example_png_sent
    tile_found [OF example_locked_node png_in_table] example_locked_failed
  by simp

text \<open>
  The claim as stated fails: the tile \<open>18/131072/8.png\<close> of the example exists, and the
  existence check passes, but the file cannot be opened and the response is 500.
\<close>

theorem tile_exists_counterexample:
  "nodes example_fs (tilePath ''/srv'' (tile ''18'' ''131072'' ''8'' ''png'')) = Some (File ''LOCKED'') \<and>
   access_F_OK example_fs (tilePath ''/srv'' (tile ''18'' ''131072'' ''8'' ''png'')) \<and>
   status (tileHandler ''/srv'' example_fs (tile ''18'' ''131072'' ''8'' ''png'')) = 500 \<and>
   body (tileHandler ''/srv'' example_fs (tile ''18'' ''131072'' ''8'' ''png'')) =
     Json (JObj [(''error'', JStr ''Error serving tile'')])"
  using example_locked_node example_locked_failed
  by (simp add: tileHandler_failed access_F_OK_def)




text \<open>
  C6, as amended. For a tile request whose file is a regular file and whose format, in
  lower case, is neither a key of the table nor the name of a member that the table
  object inherits: when the transmission of the file succeeds, the response has status
  200 and the file's bytes, and the handler sets no Content-Type header; when the
  transmission fails, the response is 500 with \<open>{error: "Error serving tile"}\<close>.
\<close>

theorem unknown_format:
  assumes "nodes fs (tilePath d ps) = Some (File bs)"
    and "map_of types (toLowerCase (format ps)) = None"
    and "toLowerCase (format ps) \<noteq> ''constructor''"
    and "toLowerCase (format ps) \<noteq> ''__proto__''"
  shows "(sendFile fs (tilePath d ps) = Some bs \<longrightarrow>
            status (tileHandler d fs ps) = 200 \<and>
            body (tileHandler d fs ps) = Raw bs \<and>
            getHeader (headers (tileHandler d fs ps)) ''Content-Type'' = None \<and>
            getHeader (headers (tileHandler d fs ps)) ''Cache-Control'' = Some ''public, max-age=3600'')
       \<and> (sendFile fs (tilePath d ps) = None \<longrightarrow>
            status (tileHandler d fs ps) = 500 \<and>
            body (tileHandler d fs ps) = Json (JObj [(''error'', JStr ''Error serving tile'')]))"
proof -
  have acc: "access_F_OK fs (tilePath d ps)"
    using assms(1) by (simp add: access_F_OK_def)
  have ct: "getContentType (format ps) = Undefined"
    using assms(2-4) by (rule getContentType_unknown)
  show ?thesis
    using acc ct by (simp add: tileHandler_sent tileHandler_failed header_simps)
qed

lemma example_xyz_node:
  "nodes example_fs (tilePath ''/srv'' (tile ''18'' ''131072'' ''5'' ''xyz'')) = Some (File ''XYZ'')"
  by (simp add: tile_simps example_fs_def)

lemma example_xyz_sent:
  "sendFile example_fs (tilePath ''/srv'' (tile ''18'' ''131072'' ''5'' ''xyz'')) = Some ''XYZ''"
  by (simp add: tile_simps example_fs_def sendFile_def dotfileIgnored_def containsDotFile_def)

lemma example_locked_xyz_node:
  "nodes example_fs (tilePath ''/srv'' (tile ''18'' ''131072'' ''9'' ''xyz'')) = Some (File ''LOCKED'')"
  by (simp add: tile_simps example_fs_def)

lemma example_locked_xyz_failed:
  "sendFile example_fs (tilePath ''/srv'' (tile ''18'' ''131072'' ''9'' ''xyz'')) = None"
  by (simp add: tile_simps example_fs_def sendFile_def dotfileIgnored_def containsDotFile_def)

lemma xyz_not_in_table:
  "map_of types (toLowerCase (format (tile zs xs ys ''xyz''))) = None"
  "toLowerCase (format (tile zs xs ys ''xyz'')) \<noteq> ''constructor''"
  "toLowerCase (format (tile zs xs ys ''xyz'')) \<noteq> ''__proto__''"
  by (simp_all add: tile_def types_def lower_simps)

theorem unknown_format_witness:
  "(status (tileHandler ''/srv'' example_fs (tile ''18'' ''131072'' ''9'' ''xyz'')) = 500 \<and>
    body (tileHandler ''/srv'' example_fs (tile ''18'' ''131072'' ''9'' ''xyz'')) =
      Json (JObj [(''error'', JStr ''Error serving tile'')])) \<and>
   status (tileHandler ''/srv'' example_fs (tile ''18'' ''131072'' ''5'' ''xyz'')) = 200 \<and>
   body (tileHandler ''/srv'' example_fs (tile ''18'' ''131072'' ''5'' ''xyz'')) = Raw ''XYZ'' \<and>
   getHeader (headers (tileHandler ''/srv'' example_fs (tile ''18'' ''131072'' ''5'' ''xyz'')))
     ''Content-Type'' = None \<and>
   getHeader (headers (tileHandler ''/srv'' example_fs (tile ''18'' ''131072'' ''5'' ''xyz'')))
     ''Cache-Control'' = Some ''public, max-age=3600''"
  using unknown_format [OF example_xyz_node xyz_not_in_table] example_xyz_sent
    unknown_format [OF example_locked_xyz_node xyz_not_in_table] example_locked_xyz_failed
  by simp

text \<open>
  The claim as stated fails: the format \<open>xyz\<close> is not in the table and the file
  \<open>18/131072/9.xyz\<close> of the example exists, but it cannot be opened and the response
  is 500.
\<close>

theorem unknown_format_counterexample:
  "map_of types (toLowerCase (format (tile ''18'' ''131072'' ''9'' ''xyz''))) = None \<and>
   nodes example_fs (tilePath ''/srv'' (tile ''18'' ''131072'' ''9'' ''xyz'')) = Some (File ''LOCKED'') \<and>
   status (tileHandler ''/srv'' example_fs (tile ''18'' ''131072'' ''9'' ''xyz'')) = 500"
  using example_locked_xyz_node example_locked_xyz_failed xyz_not_in_table(1)
  by (simp add: tileHandler_failed access_F_OK_def)

text \<open>
  The lookup \<open>types[format.toLowerCase()]\<close> also finds the members that the object
  literal inherits from \<open>Object.prototype\<close>. For the format \<open>constructor\<close>, which is no
  key of the table, the value found is a function; it is truthy, and the handler sets
  it as Content-Type.
\<close>

lemma inherited_member_as_content_type:
  "map_of types (toLowerCase ''constructor'') = None \<and>
   status (tileHandler ''/srv'' example_fs (tile ''18'' ''131072'' ''6'' ''constructor'')) = 200 \<and>
   body (tileHandler ''/srv'' example_fs (tile ''18'' ''131072'' ''6'' ''constructor'')) = Raw ''C'' \<and>
   getHeader (headers (tileHandler ''/srv'' example_fs (tile ''18'' ''131072'' ''6'' ''constructor'')))
     ''Content-Type'' = Some ''function Object() { [native code] }''"
proof -
  have sent: "sendFile example_fs (tilePath ''/srv'' (tile ''18'' ''131072'' ''6'' ''constructor'')) = Some ''C''"
    by (simp add: tile_simps example_fs_def sendFile_def dotfileIgnored_def containsDotFile_def)
  have ct: "getContentType (format (tile ''18'' ''131072'' ''6'' ''constructor'')) =
              Inherited ''function Object() { [native code] }''"
    by (simp add: tile_def getContentType_def object_get_def types_def lower_simps)
  have "map_of types (toLowerCase ''constructor'') = None"
    by (simp add: types_def lower_simps)
  then show ?thesis
    using ct by (simp add: tileHandler_sent [OF sent] header_simps)
qed

text \<open>
  C9. Content-type resolution is case-insensitive in the format: for a format whose
  lower-cased form is a key of the table, \<open>getContentType\<close> gives the same value for
  the format and for its lower-cased form, and on existing files the tile handler sets
  that same Content-Type for both.
\<close>

theorem content_type_case_insensitive:
  assumes "map_of types (toLowerCase (format ps)) = Some ct"
    and "format qs = toLowerCase (format ps)"
    and "access_F_OK fs (tilePath d ps)"
    and "access_F_OK fs (tilePath d qs)"
  shows "getContentType (format ps) = getContentType (format qs) \<and>
         getHeader (headers (tileHandler d fs ps)) ''Content-Type'' = Some ct \<and>
         getHeader (headers (tileHandler d fs qs)) ''Content-Type'' = Some ct"
proof -
  have p: "getContentType (format ps) = Str ct"
    using assms(1) by (rule getContentType_table)
  have "map_of types (toLowerCase (format qs)) = Some ct"
    using assms(1,2) by (simp add: toLowerCase_idem)
  then have q: "getContentType (format qs) = Str ct"
    by (rule getContentType_table)
  have ne: "ct \<noteq> []"
    using assms(1) by (rule types_nonempty)
  have h: "\<And>rs. access_F_OK fs (tilePath d rs) \<Longrightarrow> getContentType (format rs) = Str ct \<Longrightarrow>
             getHeader (headers (tileHandler d fs rs)) ''Content-Type'' = Some ct"
    using ne by (simp add: tileHandler_def Let_def header_simps split: option.splits)
  show ?thesis
    using p q h [OF assms(3) p] h [OF assms(4) q] by simp
qed

lemma example_PNG_access:
  "access_F_OK example_fs (tilePath ''/srv'' (tile ''18'' ''131072'' ''131072'' ''PNG''))"
  "access_F_OK example_fs (tilePath ''/srv'' (tile ''18'' ''131072'' ''131072'' ''png''))"
  by (simp_all add: tile_simps example_fs_def access_F_OK_def)

lemma PNG_in_table:
  "map_of types (toLowerCase (format (tile zs xs ys ''PNG''))) = Some ''image/png''"
  "format (tile zs xs ys ''png'') = toLowerCase (format (tile zs xs ys ''PNG''))"
  by (simp_all add: tile_def types_def lower_simps)

theorem content_type_case_insensitive_witness:
  "getContentType (format (tile ''18'' ''131072'' ''131072'' ''PNG'')) =
     getContentType (format (tile ''18'' ''131072'' ''131072'' ''png'')) \<and>
   getHeader (headers (tileHandler ''/srv'' example_fs (tile ''18'' ''131072'' ''131072'' ''PNG'')))
     ''Content-Type'' = Some ''image/png'' \<and>
   getHeader (headers (tileHandler ''/srv'' example_fs (tile ''18'' ''131072'' ''131072'' ''png'')))
     ''Content-Type'' = Some ''image/png''"
  using content_type_case_insensitive [OF PNG_in_table example_PNG_access] .

section \<open>Zoom levels and the tiles-info route\<close>

lemma map_of_assign: "map_of (assign k v kvs) = (map_of kvs)(k \<mapsto> v)"
  by (induction kvs) auto

lemma set_assign: "set (assign k v kvs) \<subseteq> insert (k, v) (set kvs)"
  by (induction kvs) (auto split: if_splits)

lemma map_of_forEach_level:
  "map_of (forEach_level t fs levels st) l =
     (if l \<in> set levels then Some (levelInfo t fs l) else map_of st l)"
  by (induction levels arbitrary: st) (auto simp: map_of_assign)

lemma set_forEach_level:
  "set (forEach_level t fs levels st) \<subseteq> set st \<union> (\<lambda>l. (l, levelInfo t fs l)) ` set levels"
proof (induction levels arbitrary: st)
  case Nil
  then show ?case by simp
next
  case (Cons l ls)
  have "set (forEach_level t fs (l # ls) st)
          \<subseteq> set (assign l (levelInfo t fs l) st) \<union> (\<lambda>l. (l, levelInfo t fs l)) ` set ls"
    using Cons.IH by simp
  also have "\<dots> \<subseteq> set st \<union> (\<lambda>l. (l, levelInfo t fs l)) ` set (l # ls)"
    using set_assign [of l "levelInfo t fs l" st] by auto
  finally show ?case .
qed

lemma filterDirectories_None:
  "filterDirectories fs dir items = None \<longleftrightarrow>
     (\<exists>i \<in> set items. statSync_isDirectory fs (path_join [dir, i]) = None)"
  by (induction items) (auto split: option.splits)

lemma filterDirectories_Some:
  "\<forall>i \<in> set items. statSync_isDirectory fs (path_join [dir, i]) \<noteq> None \<Longrightarrow>
   filterDirectories fs dir items =
     Some (filter (\<lambda>i. statSync_isDirectory fs (path_join [dir, i]) = Some True) items)"
  by (induction items) (auto split: option.splits)

lemma listDirectories_unlisted:
  "readdirSync fs dir = None \<Longrightarrow> listDirectories fs dir = None"
  by (simp add: listDirectories_def)

lemma listDirectories_listed:
  assumes "readdirSync fs dir = Some items"
  shows "listDirectories fs dir =
     (if \<forall>i \<in> set items. statSync_isDirectory fs (path_join [dir, i]) \<noteq> None
      then Some (filter (\<lambda>i. statSync_isDirectory fs (path_join [dir, i]) = Some True) items)
      else None)"
proof (cases "\<forall>i \<in> set items. statSync_isDirectory fs (path_join [dir, i]) \<noteq> None")
  case True
  have "listDirectories fs dir =
          Some (filter (\<lambda>i. statSync_isDirectory fs (path_join [dir, i]) = Some True) items)"
    using assms filterDirectories_Some [OF True] by (simp add: listDirectories_def)
  then show ?thesis by (subst if_P [OF True])
next
  case False
  then have "filterDirectories fs dir items = None"
    by (simp add: filterDirectories_None)
  with assms have "listDirectories fs dir = None"
    by (simp add: listDirectories_def)
  then show ?thesis by (subst if_not_P [OF False])
qed

lemmas fs_simps = statSync_isDirectory_def readdirSync_def

lemmas parse_simps =
  parseInt_def trimStart.simps whiteSpaceLength_def whiteSpaces_def digitValue_def
  roundToDouble_def bitLength.simps less_eq_number_def

lemmas print_simps =
  toString_number_def formatDecimal_def stripTrailingZeros_def shortestDecimal.simps
  numDigits.simps toString_nat.simps roundToDouble_def bitLength.simps char_of_def bit_Suc_0_iff

lemma parse_examples:
  "parseInt ''17'' = Some (Finite 17)"
  "parseInt ''18'' = Some (Finite 18)"
  "parseInt ''20'' = Some (Finite 20)"
  "parseInt ''abc'' = None"
  "parseInt ''latest'' = None"
  by (simp_all add: parse_simps)

lemma print_examples:
  "toString_number (Finite 17) = ''17''"
  "toString_number (Finite 18) = ''18''"
  "toString_number (Finite 20) = ''20''"
  by (simp_all add: print_simps)

text \<open>
  \<open>parseInt\<close> reads a prefix: what follows the digits is ignored, a \<open>0x\<close> prefix gives
  radix 16, the value is rounded to a double, and Unicode white space is skipped.
\<close>

lemma parse_prefix_examples:
  "parseInt ''17abc'' = Some (Finite 17)"
  "parseInt ''12.5'' = Some (Finite 12)"
  "parseInt ''0x1F'' = Some (Finite 31)"
  "parseInt ''9007199254740993'' = Some (Finite 9007199254740992)"
  "parseInt [CHR 0xC2, CHR 0xA0, CHR ''5''] = Some (Finite 5)"
  by (simp_all add: parse_simps)

text \<open>
  \<open>toString\<close> uses an exponent from \<open>10 ^ 21\<close>, and prints the shortest digits that give
  the double back.
\<close>

lemma print_large_examples:
  "toString_number (Finite 1000000000000000000000) = ''1e+21''"
  "toString_number (Finite 18446744073709551616) = ''18446744073709552000''"
  by (simp_all add: print_simps)


text \<open>
  C3, as amended. Zoom-level enumeration lists the entries of the tiles root, keeps the
  directories, parses each name with \<open>parseInt\<close>, drops the names that give \<open>NaN\<close>, and
  sorts the numbers in ascending order. When the root cannot be listed, and likewise
  when any one of its entries cannot be examined, the result is the empty list.
\<close>

theorem zoom_levels:
  "(readdirSync fs (path_join [d, ''tiles'']) = None \<longrightarrow> getAvailableZoomLevels d fs = [])
   \<and> (\<forall>items. readdirSync fs (path_join [d, ''tiles'']) = Some items \<longrightarrow>
         getAvailableZoomLevels d fs =
           (if \<forall>i \<in> set items.
                 statSync_isDirectory fs (path_join [path_join [d, ''tiles''], i]) \<noteq> None
            then sort (List.map_filter parseInt
                   (filter (\<lambda>i. statSync_isDirectory fs (path_join [path_join [d, ''tiles''], i]) = Some True)
                      items))
            else []))
   \<and> sorted (getAvailableZoomLevels d fs)"
proof (intro conjI allI impI)
  assume "readdirSync fs (path_join [d, ''tiles'']) = None"
  then show "getAvailableZoomLevels d fs = []"
    by (simp add: getAvailableZoomLevels_def listDirectories_unlisted)
next
  fix items
  assume "readdirSync fs (path_join [d, ''tiles'']) = Some items"
  then have l: "listDirectories fs (path_join [d, ''tiles'']) =
           (if \<forall>i \<in> set items.
                 statSync_isDirectory fs (path_join [path_join [d, ''tiles''], i]) \<noteq> None
            then Some (filter (\<lambda>i. statSync_isDirectory fs (path_join [path_join [d, ''tiles''], i]) = Some True)
                      items)
            else None)"
    by (rule listDirectories_listed)
  show "getAvailableZoomLevels d fs =
           (if \<forall>i \<in> set items.
                 statSync_isDirectory fs (path_join [path_join [d, ''tiles''], i]) \<noteq> None
            then sort (List.map_filter parseInt
                   (filter (\<lambda>i. statSync_isDirectory fs (path_join [path_join [d, ''tiles''], i]) = Some True)
                      items))
            else [])"
  proof (cases "\<forall>i \<in> set items.
                 statSync_isDirectory fs (path_join [path_join [d, ''tiles''], i]) \<noteq> None")
    case True
    show ?thesis
      unfolding getAvailableZoomLevels_def Let_def l if_P [OF True] by simp
  next
    case False
    show ?thesis
      unfolding getAvailableZoomLevels_def Let_def l if_not_P [OF False] by simp
  qed
next
  show "sorted (getAvailableZoomLevels d fs)"
    by (simp add: getAvailableZoomLevels_def Let_def split: option.splits)
qed

lemma example_root_listed:
  "readdirSync example_fs (path_join [''/srv'', ''tiles'']) =
     Some [''20'', ''17'', ''abc'', ''18'', ''readme.txt'']"
  by (simp add: path_simps fs_simps example_fs_def)

lemma example_root_stat:
  "\<forall>i \<in> set [''20'', ''17'', ''abc'', ''18'', ''readme.txt''].
     statSync_isDirectory example_fs (path_join [path_join [''/srv'', ''tiles''], i]) \<noteq> None"
  by (auto simp: path_simps fs_simps example_fs_def)

lemma example_root_dirs:
  "filter (\<lambda>i. statSync_isDirectory example_fs (path_join [path_join [''/srv'', ''tiles''], i]) = Some True)
     [''20'', ''17'', ''abc'', ''18'', ''readme.txt''] = [''20'', ''17'', ''abc'', ''18'']"
  by (simp add: path_simps fs_simps example_fs_def)

lemma example_parsed:
  "sort (List.map_filter parseInt [''20'', ''17'', ''abc'', ''18'']) = [Finite 17, Finite 18, Finite 20]"
  by (simp add: parse_examples less_eq_number_def)

theorem zoom_levels_witness:
  "getAvailableZoomLevels ''/srv'' example_fs = [Finite 17, Finite 18, Finite 20]"
proof -
  have "getAvailableZoomLevels ''/srv'' example_fs =
          (if \<forall>i \<in> set [''20'', ''17'', ''abc'', ''18'', ''readme.txt''].
                statSync_isDirectory example_fs (path_join [path_join [''/srv'', ''tiles''], i]) \<noteq> None
           then sort (List.map_filter parseInt
                  (filter (\<lambda>i. statSync_isDirectory example_fs
                                  (path_join [path_join [''/srv'', ''tiles''], i]) = Some True)
                     [''20'', ''17'', ''abc'', ''18'', ''readme.txt'']))
           else [])"
    using zoom_levels [of example_fs "''/srv''"] example_root_listed by blast
  then show ?thesis
    unfolding if_P [OF example_root_stat] example_root_dirs example_parsed .
qed

text \<open>
  The claim as stated fails: the root of this filesystem can be listed and its entry 17
  is a directory with a name that parses, but the entry \<open>latest\<close> cannot be examined, and
  the result is the empty list, not \<open>[17]\<close>.
\<close>

theorem zoom_levels_counterexample:
  "readdirSync dangling_fs (path_join [''/srv'', ''tiles'']) = Some [''17'', ''latest''] \<and>
   statSync_isDirectory dangling_fs (path_join [path_join [''/srv'', ''tiles''], ''17'']) = Some True \<and>
   parseInt ''17'' = Some (Finite 17) \<and>
   getAvailableZoomLevels ''/srv'' dangling_fs = []"
  by (simp add: getAvailableZoomLevels_def listDirectories_def path_simps fs_simps dangling_fs_def
      parse_examples)


lemma levelInfo_unlisted:
  "readdirSync fs (path_join [t, toString_number level]) = None \<Longrightarrow>
   levelInfo t fs level = LevelError ''Cannot read directory''"
  by (simp add: levelInfo_def listDirectories_unlisted)

lemma levelInfo_listed:
  assumes "readdirSync fs (path_join [t, toString_number level]) = Some items"
  shows "levelInfo t fs level =
     (if \<forall>i \<in> set items.
           statSync_isDirectory fs (path_join [path_join [t, toString_number level], i]) \<noteq> None
      then LevelInfo
             (length (filter (\<lambda>i. statSync_isDirectory fs
                                   (path_join [path_join [t, toString_number level], i]) = Some True) items))
             (filter (\<lambda>i. statSync_isDirectory fs
                           (path_join [path_join [t, toString_number level], i]) = Some True) items)
      else LevelError ''Cannot read directory'')"
  unfolding levelInfo_def Let_def listDirectories_listed [OF assms]
  by (simp split: if_splits)

lemma tiles_info_request:
  "method \<lparr>method = GET, path = ''/tiles-info''\<rparr> = GET"
  "tileRoute (path \<lparr>method = GET, path = ''/tiles-info''\<rparr>) = NoMatch"
  "\<not> matchLiteral ''/'' (path \<lparr>method = GET, path = ''/tiles-info''\<rparr>)"
  "\<not> matchLiteral ''/health'' (path \<lparr>method = GET, path = ''/tiles-info''\<rparr>)"
  "matchLiteral ''/tiles-info'' (path \<lparr>method = GET, path = ''/tiles-info''\<rparr>)"
  by (simp_all add: tileRoute_def matchTile_def matchLiteral_def lower_simps)

lemma app_tiles_info:
  "static fs \<lparr>method = GET, path = ''/tiles-info''\<rparr> = Next \<Longrightarrow>
   app static pr clk fs \<lparr>method = GET, path = ''/tiles-info''\<rparr> = tilesInfoHandler pr fs"
  using tiles_info_request by (simp add: app_def routes_def forMethod_def)

text \<open>
  C7, as amended. When the static middleware passes the request on, \<open>GET /tiles-info\<close>
  is answered with status 200 and the \<open>info\<close> object. For each discovered level whose
  number, printed by \<open>toString\<close>, is the name of a directory of the tiles root, the
  entry of \<open>structure\<close> holds the number and the names of the directories listed in
  that directory; when that directory cannot be listed, or one of its entries cannot be
  examined, the entry is \<open>{error: "Cannot read directory"}\<close>. Each entry depends on its
  own directory only, and the status is 200 in every case.
\<close>

theorem tiles_info_entries:
  "(static fs \<lparr>method = GET, path = ''/tiles-info''\<rparr> = Next \<longrightarrow>
      app static pr clk fs \<lparr>method = GET, path = ''/tiles-info''\<rparr> =
        \<lparr>status = 200, headers = [], body = Json (json_of_info (tilesInfo (dirname pr) fs))\<rparr>)
   \<and> available_levels (tilesInfo d fs) = getAvailableZoomLevels d fs
   \<and> (\<forall>level \<in> set (available_levels (tilesInfo d fs)).
        \<forall>dirs. listDirectories fs (path_join [d, ''tiles'']) = Some dirs \<longrightarrow>
          toString_number level \<in> set dirs \<longrightarrow>
          (readdirSync fs (path_join [path_join [d, ''tiles''], toString_number level]) = None \<longrightarrow>
             map_of (structure (tilesInfo d fs)) level = Some (LevelError ''Cannot read directory''))
        \<and> (\<forall>items.
             readdirSync fs (path_join [path_join [d, ''tiles''], toString_number level]) = Some items \<longrightarrow>
             map_of (structure (tilesInfo d fs)) level =
               Some (if \<forall>i \<in> set items.
                          statSync_isDirectory fs
                            (path_join [path_join [path_join [d, ''tiles''], toString_number level], i])
                              \<noteq> None
                     then LevelInfo
                            (length (filter (\<lambda>i. statSync_isDirectory fs
                               (path_join [path_join [path_join [d, ''tiles''], toString_number level], i])
                                 = Some True) items))
                            (filter (\<lambda>i. statSync_isDirectory fs
                               (path_join [path_join [path_join [d, ''tiles''], toString_number level], i])
                                 = Some True) items)
                     else LevelError ''Cannot read directory'')))"
proof (intro conjI ballI allI impI)
  assume "static fs \<lparr>method = GET, path = ''/tiles-info''\<rparr> = Next"
  then show "app static pr clk fs \<lparr>method = GET, path = ''/tiles-info''\<rparr> =
        \<lparr>status = 200, headers = [], body = Json (json_of_info (tilesInfo (dirname pr) fs))\<rparr>"
    by (simp add: app_tiles_info tilesInfoHandler_def)
next
  show "available_levels (tilesInfo d fs) = getAvailableZoomLevels d fs"
    by (simp add: tilesInfo_def Let_def)
next
  fix level dirs
  assume "level \<in> set (available_levels (tilesInfo d fs))"
  then have entry: "map_of (structure (tilesInfo d fs)) level =
                      Some (levelInfo (path_join [d, ''tiles'']) fs level)"
    by (simp add: tilesInfo_def Let_def map_of_forEach_level)
  {
    assume "readdirSync fs (path_join [path_join [d, ''tiles''], toString_number level]) = None"
    then show "map_of (structure (tilesInfo d fs)) level = Some (LevelError ''Cannot read directory'')"
      unfolding entry by (simp add: levelInfo_unlisted)
  }
  {
    fix items
    assume "readdirSync fs (path_join [path_join [d, ''tiles''], toString_number level]) = Some items"
    then show "map_of (structure (tilesInfo d fs)) level =
               Some (if \<forall>i \<in> set items.
                          statSync_isDirectory fs
                            (path_join [path_join [path_join [d, ''tiles''], toString_number level], i])
                              \<noteq> None
                     then LevelInfo
                            (length (filter (\<lambda>i. statSync_isDirectory fs
                               (path_join [path_join [path_join [d, ''tiles''], toString_number level], i])
                                 = Some True) items))
                            (filter (\<lambda>i. statSync_isDirectory fs
                               (path_join [path_join [path_join [d, ''tiles''], toString_number level], i])
                                 = Some True) items)
                     else LevelError ''Cannot read directory'')"
      unfolding entry by (simp only: levelInfo_listed)
  }
qed

lemma example_levels:
  "getAvailableZoomLevels ''/srv'' example_fs = [Finite 17, Finite 18, Finite 20]"
  by (simp add: getAvailableZoomLevels_def listDirectories_def path_simps fs_simps example_fs_def
      parse_examples less_eq_number_def)

lemma example_root_directories:
  "listDirectories example_fs (path_join [''/srv'', ''tiles'']) = Some [''20'', ''17'', ''abc'', ''18'']"
  by (simp add: listDirectories_def path_simps fs_simps example_fs_def)

lemma example_level_17_listed:
  "readdirSync example_fs (path_join [path_join [''/srv'', ''tiles''], toString_number (Finite 17)]) =
     Some [''1'', ''2'', ''notes.txt'']"
  by (simp add: print_examples path_simps fs_simps example_fs_def)

lemma example_level_17_stat:
  "\<forall>i \<in> set [''1'', ''2'', ''notes.txt''].
     statSync_isDirectory example_fs
       (path_join [path_join [path_join [''/srv'', ''tiles''], toString_number (Finite 17)], i]) \<noteq> None"
  by (auto simp: print_examples path_simps fs_simps example_fs_def)

lemma example_level_17_dirs:
  "filter (\<lambda>i. statSync_isDirectory example_fs
             (path_join [path_join [path_join [''/srv'', ''tiles''], toString_number (Finite 17)], i]) = Some True)
     [''1'', ''2'', ''notes.txt''] = [''1'', ''2'']"
  by (simp add: print_examples path_simps fs_simps example_fs_def)

lemma example_level_20_unlisted:
  "readdirSync example_fs (path_join [path_join [''/srv'', ''tiles''], toString_number (Finite 20)]) = None"
  by (simp add: print_examples path_simps fs_simps example_fs_def)

lemma example_static_tiles_info:
  "serveStatic (path_join [cwd example_process, ''public'']) example_fs
     \<lparr>method = GET, path = ''/tiles-info''\<rparr> = Next"
  by (simp add: serveStatic_def decodeURIComponent_def dotfileIgnored_def containsDotFile_def
      path_simps example_process_def example_fs_def)

theorem tiles_info_entries_witness:
  "status (server example_process example_clock example_fs \<lparr>method = GET, path = ''/tiles-info''\<rparr>) = 200 \<and>
   map_of (structure (tilesInfo ''/srv'' example_fs)) (Finite 17) = Some (LevelInfo 2 [''1'', ''2'']) \<and>
   map_of (structure (tilesInfo ''/srv'' example_fs)) (Finite 20) =
     Some (LevelError ''Cannot read directory'')"
proof -
  note t = tiles_info_entries
    [of "serveStatic (path_join [cwd example_process, ''public''])" example_fs
        example_process example_clock "''/srv''"]
  have levels: "available_levels (tilesInfo ''/srv'' example_fs) = [Finite 17, Finite 18, Finite 20]"
    using t example_levels by simp
  have s: "status (server example_process example_clock example_fs
             \<lparr>method = GET, path = ''/tiles-info''\<rparr>) = 200"
    using t example_static_tiles_info by (simp add: server_def)
  have in17: "Finite 17 \<in> set (available_levels (tilesInfo ''/srv'' example_fs))"
    unfolding levels by simp
  have c17: "toString_number (Finite 17) \<in> set [''20'', ''17'', ''abc'', ''18'']"
    by (simp add: print_examples)
  from t in17 example_root_directories c17 example_level_17_listed
  have "map_of (structure (tilesInfo ''/srv'' example_fs)) (Finite 17) =
          Some (if \<forall>i \<in> set [''1'', ''2'', ''notes.txt''].
                     statSync_isDirectory example_fs
                       (path_join [path_join [path_join [''/srv'', ''tiles''], toString_number (Finite 17)], i])
                         \<noteq> None
                then LevelInfo
                       (length (filter (\<lambda>i. statSync_isDirectory example_fs
                          (path_join [path_join [path_join [''/srv'', ''tiles''], toString_number (Finite 17)], i])
                            = Some True) [''1'', ''2'', ''notes.txt'']))
                       (filter (\<lambda>i. statSync_isDirectory example_fs
                          (path_join [path_join [path_join [''/srv'', ''tiles''], toString_number (Finite 17)], i])
                            = Some True) [''1'', ''2'', ''notes.txt''])
                else LevelError ''Cannot read directory'')"
    by blast
  then have a: "map_of (structure (tilesInfo ''/srv'' example_fs)) (Finite 17) =
                  Some (LevelInfo 2 [''1'', ''2''])"
    unfolding if_P [OF example_level_17_stat] example_level_17_dirs by simp
  have in20: "Finite 20 \<in> set (available_levels (tilesInfo ''/srv'' example_fs))"
    unfolding levels by simp
  have c20: "toString_number (Finite 20) \<in> set [''20'', ''17'', ''abc'', ''18'']"
    by (simp add: print_examples)
  from t in20 example_root_directories c20 example_level_20_unlisted
  have b: "map_of (structure (tilesInfo ''/srv'' example_fs)) (Finite 20) =
             Some (LevelError ''Cannot read directory'')"
    by blast
  from s a b show ?thesis by blast
qed

lemma shadowed_static:
  "serveStatic (path_join [cwd example_process, ''public'']) shadowed_fs
     \<lparr>method = GET, path = ''/tiles-info''\<rparr> =
   Answered \<lparr>status = 301, headers = [], body = RedirectPage\<rparr>"
  by (simp add: serveStatic_def decodeURIComponent_def dotfileIgnored_def containsDotFile_def
      path_simps example_process_def shadowed_fs_def)

text \<open>
  The claim as stated fails: with a directory \<open>tiles-info\<close> in the public directory the
  static middleware answers \<open>GET /tiles-info\<close> with a redirect, status 301.
\<close>

theorem tiles_info_counterexample:
  "status (server example_process example_clock shadowed_fs \<lparr>method = GET, path = ''/tiles-info''\<rparr>) = 301"
  using shadowed_static by (simp add: server_def app_def)

text \<open>
  C10. In every successful entry of \<open>structure\<close>, \<open>x_directories\<close> is the length of
  \<open>sample_x_dirs\<close>, and \<open>sample_x_dirs\<close> is the whole list of the level's directories.
\<close>

theorem sample_is_complete:
  assumes "(level, LevelInfo n names) \<in> set (structure (tilesInfo d fs))"
  shows "n = length names \<and>
         listDirectories fs (path_join [path_join [d, ''tiles''], toString_number level]) = Some names"
proof -
  have "(level, LevelInfo n names) \<in>
          (\<lambda>l. (l, levelInfo (path_join [d, ''tiles'']) fs l)) ` set (getAvailableZoomLevels d fs)"
    using assms set_forEach_level [of "path_join [d, ''tiles'']" fs "getAvailableZoomLevels d fs" "[]"]
    by (auto simp: tilesInfo_def Let_def)
  then have "levelInfo (path_join [d, ''tiles'']) fs level = LevelInfo n names"
    by auto
  then show ?thesis
    by (auto simp: levelInfo_def Let_def split: option.splits)
qed

lemma example_structure:
  "structure (tilesInfo ''/srv'' example_fs) =
     [(Finite 17, LevelInfo 2 [''1'', ''2'']),
      (Finite 18, LevelInfo 1 [''131072'']),
      (Finite 20, LevelError ''Cannot read directory'')]"
proof -
  have "structure (tilesInfo ''/srv'' example_fs) =
          forEach_level (path_join [''/srv'', ''tiles'']) example_fs [Finite 17, Finite 18, Finite 20] []"
    by (simp add: tilesInfo_def Let_def example_levels)
  also have "\<dots> =
     [(Finite 17, LevelInfo 2 [''1'', ''2'']),
      (Finite 18, LevelInfo 1 [''131072'']),
      (Finite 20, LevelError ''Cannot read directory'')]"
    by (simp add: levelInfo_def listDirectories_def print_examples path_simps fs_simps example_fs_def)
  finally show ?thesis .
qed

theorem sample_is_complete_witness:
  "(2::nat) = length [''1'', ''2''] \<and>
   listDirectories example_fs (path_join [path_join [''/srv'', ''tiles''], toString_number (Finite 17)]) =
     Some [''1'', ''2'']"
proof -
  have "(Finite 17, LevelInfo 2 [''1'', ''2'']) \<in> set (structure (tilesInfo ''/srv'' example_fs))"
    unfolding example_structure by simp
  then show ?thesis by (rule sample_is_complete)
qed

text \<open>
  The handler finds a level's directory again from the number, not from the name it was
  discovered under: the directory \<open>007\<close> can be read, but the level is 7 and the entry
  is built from \<open>tiles/7\<close>, which does not exist.
\<close>

lemma level_directory_by_number:
  "listDirectories padded_fs (path_join [''/srv'', ''tiles'']) = Some [''007''] \<and>
   listDirectories padded_fs (path_join [path_join [''/srv'', ''tiles''], ''007'']) = Some [''a''] \<and>
   available_levels (tilesInfo ''/srv'' padded_fs) = [Finite 7] \<and>
   structure (tilesInfo ''/srv'' padded_fs) = [(Finite 7, LevelError ''Cannot read directory'')]"
proof -
  have p: "parseInt ''007'' = Some (Finite 7)"
    by (simp add: parse_simps)
  have q: "toString_number (Finite 7) = ''7''"
    by (simp add: print_simps)
  have dirs:
    "listDirectories padded_fs (path_join [''/srv'', ''tiles'']) = Some [''007'']"
    "listDirectories padded_fs (path_join [path_join [''/srv'', ''tiles''], ''007'']) = Some [''a'']"
    by (simp_all add: listDirectories_def path_simps fs_simps padded_fs_def)
  have l: "getAvailableZoomLevels ''/srv'' padded_fs = [Finite 7]"
    by (simp add: getAvailableZoomLevels_def dirs p)
  have "structure (tilesInfo ''/srv'' padded_fs) =
          forEach_level (path_join [''/srv'', ''tiles'']) padded_fs [Finite 7] []"
    by (simp add: tilesInfo_def Let_def l)
  also have "\<dots> = [(Finite 7, LevelError ''Cannot read directory'')]"
    by (simp add: levelInfo_def listDirectories_def q path_simps fs_simps padded_fs_def)
  finally have st: "structure (tilesInfo ''/srv'' padded_fs) =
                      [(Finite 7, LevelError ''Cannot read directory'')]" .
  have "available_levels (tilesInfo ''/srv'' padded_fs) = [Finite 7]"
    by (simp add: tilesInfo_def Let_def l)
  with dirs st show ?thesis by simp
qed

section \<open>The listening port\<close>

text \<open>
  C5, as amended. The listening port is 3000 when \<open>PORT\<close> is unset or empty; any other
  value of \<open>PORT\<close> is taken as it is, with no check that it is a number.
\<close>

theorem listening_port:
  "PORT None = PortNumber 3000 \<and> PORT (Some []) = PortNumber 3000 \<and>
   (v \<noteq> [] \<longrightarrow> PORT (Some v) = PortString v)"
  by (simp add: PORT_def)

theorem listening_port_witness: "PORT (Some ''8080'') = PortString ''8080''"
  using listening_port [of "''8080''"] by simp

text \<open>
  The claim as stated fails: with \<open>PORT=abc\<close> the value handed to \<open>listen\<close> is \<open>abc\<close>,
  not 3000.
\<close>

theorem listening_port_counterexample:
  "PORT (Some ''abc'') = PortString ''abc'' \<and> PORT (Some ''abc'') \<noteq> PortNumber 3000"
  by (simp add: PORT_def)

section \<open>The order of the middleware\<close>

text \<open>
  C4, as amended. An \<open>OPTIONS\<close> request is answered by the CORS middleware. Every other
  request goes to the static middleware first, whatever its path (a path of the tile,
  root, health or tiles-info route included), and when the static middleware answers,
  its answer is the response. When it passes the request on and the path matches the
  tile pattern with parameters that can be decoded, a \<open>GET\<close> request gets the tile
  handler's response for the decoded parameters; a \<open>HEAD\<close> request gets the tile
  handler's status and headers with no body, the file not being opened.
\<close>

theorem routing:
  "(method req = OPTIONS \<longrightarrow>
      app static pr clk fs req = \<lparr>status = 204, headers = [], body = NoBody\<rparr>)
   \<and> (method req \<noteq> OPTIONS \<longrightarrow>
        (\<forall>res. static fs req = Answered res \<longrightarrow> app static pr clk fs req = res)
      \<and> (static fs req = Next \<longrightarrow>
           (\<forall>ps. tileRoute (path req) = Matched ps \<longrightarrow>
              (method req = GET \<longrightarrow> app static pr clk fs req = tileHandler (dirname pr) fs ps)
            \<and> (method req = HEAD \<longrightarrow>
                 app static pr clk fs req =
                   (tileHandler (dirname pr) (fs\<lparr>unreadable := (\<lambda>p. False)\<rparr>) ps)\<lparr>body := NoBody\<rparr>))))"
  by (auto simp: app_def routes_def forMethod_def tileHandlerHEAD_def)

lemma example_route_131072:
  "tileRoute (path \<lparr>method = GET, path = ''/18/131072/131072.png''\<rparr>) =
     Matched (tile ''18'' ''131072'' ''131072'' ''png'')"
  by (simp add: tileRoute_def matchTile_def decodeURIComponent_def path_simps tile_def)

lemma example_route_7:
  "tileRoute (path \<lparr>method = GET, path = ''/18/131072/7.png''\<rparr>) =
     Matched (tile ''18'' ''131072'' ''7'' ''png'')"
  by (simp add: tileRoute_def matchTile_def decodeURIComponent_def path_simps tile_def)

lemma example_static_next:
  "serveStatic (path_join [cwd example_process, ''public'']) example_fs
     \<lparr>method = GET, path = ''/18/131072/131072.png''\<rparr> = Next"
  by (simp add: serveStatic_def decodeURIComponent_def dotfileIgnored_def containsDotFile_def
      path_simps example_process_def example_fs_def)

lemma example_static_answered:
  "serveStatic (path_join [cwd example_process, ''public'']) example_fs
     \<lparr>method = GET, path = ''/18/131072/7.png''\<rparr> =
   Answered \<lparr>status = 200, headers = [], body = Raw ''PUBLIC''\<rparr>"
  by (simp add: serveStatic_def decodeURIComponent_def dotfileIgnored_def containsDotFile_def
      path_simps example_process_def example_fs_def)

lemma example_tile_7_sent:
  "sendFile example_fs (tilePath ''/srv'' (tile ''18'' ''131072'' ''7'' ''png'')) = Some ''TILE''"
  by (simp add: tile_simps example_fs_def sendFile_def dotfileIgnored_def containsDotFile_def)

lemma example_route_8:
  "tileRoute (path \<lparr>method = HEAD, path = ''/18/131072/8.png''\<rparr>) =
     Matched (tile ''18'' ''131072'' ''8'' ''png'')"
  by (simp add: tileRoute_def matchTile_def decodeURIComponent_def path_simps tile_def)

lemma example_static_next_8:
  "serveStatic (path_join [cwd example_process, ''public'']) example_fs
     \<lparr>method = HEAD, path = ''/18/131072/8.png''\<rparr> = Next"
  by (simp add: serveStatic_def decodeURIComponent_def dotfileIgnored_def containsDotFile_def
      path_simps example_process_def example_fs_def)

lemma example_head_8:
  "(tileHandler ''/srv'' (example_fs\<lparr>unreadable := (\<lambda>p. False)\<rparr>)
      (tile ''18'' ''131072'' ''8'' ''png''))\<lparr>body := NoBody\<rparr> =
   \<lparr>status = 200,
    headers = [(''Cache-Control'', ''public, max-age=3600''), (''Content-Type'', ''image/png'')],
    body = NoBody\<rparr>"
proof -
  have "sendFile (example_fs\<lparr>unreadable := (\<lambda>p. False)\<rparr>)
          (tilePath ''/srv'' (tile ''18'' ''131072'' ''8'' ''png'')) = Some ''LOCKED''"
    by (simp add: tile_simps example_fs_def sendFile_def dotfileIgnored_def containsDotFile_def)
  then show ?thesis
    by (simp add: tileHandler_sent tile_def getContentType_def object_get_def types_def
        lower_simps setHeader_def)
qed

theorem routing_witness:
  "server example_process example_clock example_fs \<lparr>method = GET, path = ''/18/131072/131072.png''\<rparr> =
     tileHandler ''/srv'' example_fs (tile ''18'' ''131072'' ''131072'' ''png'') \<and>
   server example_process example_clock example_fs \<lparr>method = GET, path = ''/18/131072/7.png''\<rparr> =
     \<lparr>status = 200, headers = [], body = Raw ''PUBLIC''\<rparr> \<and>
   server example_process example_clock example_fs \<lparr>method = HEAD, path = ''/18/131072/8.png''\<rparr> =
     \<lparr>status = 200,
      headers = [(''Cache-Control'', ''public, max-age=3600''), (''Content-Type'', ''image/png'')],
      body = NoBody\<rparr> \<and>
   server example_process example_clock example_fs \<lparr>method = OPTIONS, path = ''/18/131072/7.png''\<rparr> =
     \<lparr>status = 204, headers = [], body = NoBody\<rparr>"
  using routing [of "\<lparr>method = GET, path = ''/18/131072/131072.png''\<rparr>"
      "serveStatic (path_join [cwd example_process, ''public''])" example_process example_clock example_fs]
    routing [of "\<lparr>method = GET, path = ''/18/131072/7.png''\<rparr>"
      "serveStatic (path_join [cwd example_process, ''public''])" example_process example_clock example_fs]
    routing [of "\<lparr>method = HEAD, path = ''/18/131072/8.png''\<rparr>"
      "serveStatic (path_join [cwd example_process, ''public''])" example_process example_clock example_fs]
    routing [of "\<lparr>method = OPTIONS, path = ''/18/131072/7.png''\<rparr>"
      "serveStatic (path_join [cwd example_process, ''public''])" example_process example_clock example_fs]
    example_static_next example_static_answered example_route_131072
    example_static_next_8 example_route_8 example_head_8
  by (simp add: server_def example_process_def)

text \<open>
  The claim as stated fails: the path \<open>/18/131072/7.png\<close> matches the tile pattern and
  the tile exists, but the public directory holds a file of that path, and the response
  is the static middleware's, not the tile handler's.
\<close>

theorem routing_counterexample:
  "tileRoute (path \<lparr>method = GET, path = ''/18/131072/7.png''\<rparr>) =
     Matched (tile ''18'' ''131072'' ''7'' ''png'') \<and>
   body (server example_process example_clock example_fs \<lparr>method = GET, path = ''/18/131072/7.png''\<rparr>) =
     Raw ''PUBLIC'' \<and>
   body (tileHandler (dirname example_process) example_fs (tile ''18'' ''131072'' ''7'' ''png'')) =
     Raw ''TILE''"
proof -
  have "server example_process example_clock example_fs \<lparr>method = GET, path = ''/18/131072/7.png''\<rparr> =
          \<lparr>status = 200, headers = [], body = Raw ''PUBLIC''\<rparr>"
    using example_static_answered by (simp add: server_def app_def)
  moreover have "dirname example_process = ''/srv''"
    by (simp add: example_process_def)
  ultimately show ?thesis
    using example_route_7 by (simp add: tileHandler_sent [OF example_tile_7_sent])
qed

section \<open>Repeated requests\<close>



lemma health_response_with_clock:
  "static fs \<lparr>method = GET, path = ''/health''\<rparr> = Next \<Longrightarrow> uptime c1 \<noteq> uptime c2 \<Longrightarrow>
   app static pr c1 fs \<lparr>method = GET, path = ''/health''\<rparr> \<noteq>
   app static pr c2 fs \<lparr>method = GET, path = ''/health''\<rparr>"
  by (simp add: app_def routes_def forMethod_def healthHandler_def tileRoute_def matchTile_def
      matchLiteral_def lower_simps)



end
